theory Spec2Isabelle
  imports Main "HOL-Library.Word"
begin

section \<open>Webhook signature verification (security.py)\<close>

text \<open>
  Python text (\<open>str\<close>) is modelled as \<^typ>\<open>string\<close>: a list of code points below 256,
  which is what an HTTP header value carries. Python \<open>bytes\<close> are lists of 8-bit words.
  Python integers are unbounded and modelled as \<^typ>\<open>int\<close>. The interpreter's optional cap
  on the number of digits of a decimal conversion is a setting of the runtime, not of this
  program, and is not part of the model.
\<close>

type_synonym bytes = "8 word list"

datatype py_error = ValueError | IndexError | TypeError

subsection \<open>Builtins used by the module\<close>

text \<open>\<open>str.split(sep)\<close> for a one-character separator: never returns the empty list.\<close>

fun py_split :: "char \<Rightarrow> string \<Rightarrow> string list" where
  "py_split sep [] = [[]]"
| "py_split sep (c # cs) =
     (if c = sep then [] # py_split sep cs
      else (case py_split sep cs of
              [] \<Rightarrow> [[c]]
            | p # ps \<Rightarrow> (c # p) # ps))"

text \<open>\<open>str.startswith(prefix)\<close>.\<close>

definition startswith :: "string \<Rightarrow> string \<Rightarrow> bool" where
  "startswith s pre = (take (length pre) s = pre)"

text \<open>
  \<open>int(s)\<close> for text: surrounding whitespace is stripped, one sign is allowed, then at least
  one decimal digit; single underscores may separate digits. Anything else raises
  \<open>ValueError\<close>. Below 256 the characters that count as whitespace are
  TAB, LF, VT, FF, CR, SPACE, NEL (0x85) and NBSP (0xA0).
\<close>

definition is_space :: "char \<Rightarrow> bool" where
  "is_space c = ((of_char c :: nat) \<in> {9, 10, 11, 12, 13, 32, 133, 160})"

definition is_digit :: "char \<Rightarrow> bool" where
  "is_digit c = (48 \<le> (of_char c :: nat) \<and> (of_char c :: nat) \<le> 57)"

definition digit_val :: "char \<Rightarrow> nat" where
  "digit_val c = of_char c - 48"

definition py_strip :: "string \<Rightarrow> string" where
  "py_strip s = rev (dropWhile is_space (rev (dropWhile is_space s)))"

fun digits_value :: "nat \<Rightarrow> string \<Rightarrow> nat option" where
  "digits_value acc [] = Some acc"
| "digits_value acc (c # cs) =
     (if is_digit c then digits_value (acc * 10 + digit_val c) cs
      else if c = CHR ''_'' then
        (case cs of
           [] \<Rightarrow> None
         | d # ds \<Rightarrow> if is_digit d then digits_value acc cs else None)
      else None)"

definition parse_nat :: "string \<Rightarrow> nat option" where
  "parse_nat s =
     (case s of
        [] \<Rightarrow> None
      | c # cs \<Rightarrow> if is_digit c then digits_value 0 s else None)"

definition py_int :: "string \<Rightarrow> py_error + int" where
  "py_int s =
     (let t = py_strip s;
          (neg, body) =
            (case t of
               [] \<Rightarrow> (False, [])
             | c # cs \<Rightarrow>
                 if c = CHR ''-'' then (True, cs)
                 else if c = CHR ''+'' then (False, cs)
                 else (False, t))
      in case parse_nat body of
           None \<Rightarrow> Inl ValueError
         | Some n \<Rightarrow> Inr (if neg then - int n else int n))"

text \<open>\<open>str(n)\<close> for an integer: decimal digits, most significant first, \<open>-\<close> when negative.\<close>

definition digit_char :: "nat \<Rightarrow> char" where
  "digit_char n = ''0123456789'' ! n"

fun nat_digits :: "nat \<Rightarrow> string" where
  "nat_digits n =
     (if n < 10 then [digit_char n]
      else nat_digits (n div 10) @ [digit_char (n mod 10)])"

declare nat_digits.simps [simp del]

definition py_str :: "int \<Rightarrow> string" where
  "py_str i = (if i < 0 then CHR ''-'' # nat_digits (nat (- i)) else nat_digits (nat i))"

text \<open>
  \<open>str.encode("utf-8")\<close> on code points below 256: one byte below 128, two bytes from 128 on.
\<close>

definition utf8_char :: "char \<Rightarrow> bytes" where
  "utf8_char c =
     (let n = (of_char c :: nat)
      in if n < 128 then [of_nat n]
         else [of_nat (192 + n div 64), of_nat (128 + n mod 64)])"

definition encode_utf8 :: "string \<Rightarrow> bytes" where
  "encode_utf8 s = concat (map utf8_char s)"

text \<open>\<open>hexdigest()\<close>: two lowercase hexadecimal characters per byte of the digest.\<close>

definition hex_char :: "nat \<Rightarrow> char" where
  "hex_char n = ''0123456789abcdef'' ! n"

definition hex_byte :: "8 word \<Rightarrow> string" where
  "hex_byte b = [hex_char (unat b div 16), hex_char (unat b mod 16)]"

definition hexdigest :: "bytes \<Rightarrow> string" where
  "hexdigest d = concat (map hex_byte d)"

text \<open>
  \<open>hmac.compare_digest\<close> on two texts: raises \<open>TypeError\<close> unless both are ASCII, and
  otherwise tells whether they are equal (its running time is not modelled).
\<close>

definition is_ascii :: "string \<Rightarrow> bool" where
  "is_ascii s = (\<forall>c \<in> set s. (of_char c :: nat) < 128)"

definition compare_digest :: "string \<Rightarrow> string \<Rightarrow> py_error + bool" where
  "compare_digest a b = (if is_ascii a \<and> is_ascii b then Inr (a = b) else Inl TypeError)"

subsection \<open>The functions of security.py\<close>

text \<open>
  The loop of \<open>parse_signature_header\<close> over the comma-separated parts, carrying the two
  local variables \<open>timestamp\<close> and \<open>signature\<close>. A failing \<open>int(part[2:])\<close> leaves the
  loop at once with the error.
\<close>

fun parse_parts ::
  "string list \<Rightarrow> int option \<Rightarrow> string option \<Rightarrow> py_error + (int option \<times> string option)"
where
  "parse_parts [] timestamp signature = Inr (timestamp, signature)"
| "parse_parts (part # parts) timestamp signature =
     (if startswith part ''t='' then
        (case py_int (drop 2 part) of
           Inl e \<Rightarrow> Inl e
         | Inr n \<Rightarrow> parse_parts parts (Some n) signature)
      else if startswith part ''v1='' then parse_parts parts timestamp (Some (drop 3 part))
      else parse_parts parts timestamp signature)"

text \<open>
  \<open>parse_signature_header\<close>: the pair (signature, timestamp), or (None, None). The
  \<open>except (ValueError, IndexError)\<close> clause turns these two errors into (None, None); any
  other error would leave the function.
\<close>

definition parse_signature_header :: "string \<Rightarrow> py_error + (string option \<times> int option)" where
  "parse_signature_header signature_header =
     (case parse_parts (py_split CHR '','' signature_header) None None of
        Inl e \<Rightarrow> if e = ValueError \<or> e = IndexError then Inr (None, None) else Inl e
      | Inr (timestamp, signature) \<Rightarrow>
          if timestamp = None \<or> signature = None then Inr (None, None)
          else Inr (signature, timestamp))"

text \<open>
  \<open>validate_timestamp\<close>; \<open>current_time\<close> is the value of \<open>int(time.time())\<close> at the call.
\<close>

definition validate_timestamp :: "int \<Rightarrow> int \<Rightarrow> int \<Rightarrow> bool" where
  "validate_timestamp current_time timestamp tolerance_seconds =
     (let age = current_time - timestamp
      in if age < 0 then False
         else if age > tolerance_seconds then False
         else True)"

text \<open>
  \<open>compute_signature\<close>. The keyed digest \<open>hmac.new(secret, msg, hashlib.sha256).digest()\<close>
  belongs to the standard library and is the parameter \<open>hmac_sha256\<close> (key first).
\<close>

definition compute_signature ::
  "(bytes \<Rightarrow> bytes \<Rightarrow> bytes) \<Rightarrow> int \<Rightarrow> bytes \<Rightarrow> bytes \<Rightarrow> string" where
  "compute_signature hmac_sha256 timestamp body secret =
     (let timestamp_bytes = encode_utf8 (py_str timestamp);
          signing_string = timestamp_bytes @ [0x2E] @ body
      in hexdigest (hmac_sha256 secret signing_string))"

definition verify_signature ::
  "(bytes \<Rightarrow> bytes \<Rightarrow> bytes) \<Rightarrow> int \<Rightarrow> string \<Rightarrow> bytes \<Rightarrow> bytes \<Rightarrow> int \<Rightarrow> py_error + bool"
where
  "verify_signature hmac_sha256 current_time signature_header body secret
       timestamp_tolerance_seconds =
     (case parse_signature_header signature_header of
        Inl e \<Rightarrow> Inl e
      | Inr (provided_signature, timestamp) \<Rightarrow>
          (case (provided_signature, timestamp) of
             (Some provided, Some ts) \<Rightarrow>
               if \<not> validate_timestamp current_time ts timestamp_tolerance_seconds
               then Inr False
               else
                 (case compare_digest (compute_signature hmac_sha256 ts body secret) provided of
                    Inl e \<Rightarrow> Inl e
                  | Inr same \<Rightarrow> if \<not> same then Inr False else Inr True)
           | _ \<Rightarrow> Inr False))"

text \<open>
  The header a sender builds: \<open>t=<timestamp>,v1=<signature>\<close>, as the module's docstring
  gives the format and as the test helper \<open>create_valid_signature\<close> writes it.
\<close>

definition format_header :: "int \<Rightarrow> string \<Rightarrow> string" where
  "format_header timestamp signature = ''t='' @ py_str timestamp @ '',v1='' @ signature"

section \<open>Data models (models.py)\<close>

text \<open>
  A parsed JSON document. A number literal is kept exactly, as mantissa and decimal
  exponent: an integer literal \<open>n\<close> is \<open>JNum n 0\<close>, and a literal written with a fraction
  or an exponent has a decimal exponent other than 0 (\<open>1.0\<close> is \<open>JNum 10 (-1)\<close>). An object
  is the list of its members as the JSON parser hands them over, one per key.
\<close>

datatype json =
    JNull
  | JBool bool
  | JNum int int
  | JString string
  | JArray "json list"
  | JObject "(string \<times> json) list"

text \<open>
  \<open>TailscaleEvent\<close>: five required fields, \<open>data\<close> with the default \<open>dict()\<close>, and
  \<open>extra="allow"\<close>, which keeps members with other names (field \<open>extra\<close> here). The type of
  a \<open>datetime\<close> value is left open.
\<close>

record 'dt tailscale_event =
  timestamp :: 'dt
  version :: int
  type :: string
  tailnet :: string
  message :: string
  data :: "(string \<times> json) list"
  extra :: "(string \<times> json) list"

record 'dt notification_payload =
  event_type :: string
  event_message :: string
  payload_tailnet :: string
  payload_timestamp :: 'dt
  raw_data :: "(string \<times> json) list"

text \<open>\<open>NotificationPayload.from_tailscale_event\<close>.\<close>

definition from_tailscale_event :: "'dt tailscale_event \<Rightarrow> 'dt notification_payload" where
  "from_tailscale_event event =
     \<lparr> event_type = type event,
       event_message = message event,
       payload_tailnet = tailnet event,
       payload_timestamp = timestamp event,
       raw_data = data event \<rparr>"

subsection \<open>Validation of the request body\<close>

text \<open>
  \<open>TypeAdapter(list[TailscaleEvent]).validate_json(body)\<close> is driven by the class
  declaration above and runs in the library's default, lenient mode. What the library
  itself decides is a parameter: the JSON parser (\<open>None\<close> for a body that is not valid
  JSON), the reading of a \<open>datetime\<close> from text, and the lenient conversions of values of
  another JSON type to \<open>datetime\<close> and to \<open>int\<close> (\<open>None\<close> for a value that is refused).
\<close>

record 'dt pydantic =
  parse_json :: "bytes \<Rightarrow> json option"
  parse_datetime :: "string \<Rightarrow> 'dt option"
  lax_datetime :: "json \<Rightarrow> 'dt option"
  lax_int :: "json \<Rightarrow> int option"

text \<open>
  A \<open>datetime\<close> field reads a JSON string as text and refuses \<open>null\<close>, arrays and objects;
  a number or a boolean goes to the lenient conversion. An \<open>int\<close> field takes a JSON
  integer as it is and refuses \<open>null\<close>, arrays and objects; a boolean, a number written
  with fraction or exponent, and a string go to the lenient conversion. A \<open>str\<close> field
  accepts a JSON string only, and a \<open>dict[str, Any]\<close> field a JSON object only.
\<close>

definition as_datetime :: "'dt pydantic \<Rightarrow> json \<Rightarrow> 'dt option" where
  "as_datetime lib v =
     (case v of
        JString s \<Rightarrow> parse_datetime lib s
      | JNum m e \<Rightarrow> lax_datetime lib v
      | JBool b \<Rightarrow> lax_datetime lib v
      | _ \<Rightarrow> None)"

definition as_int :: "'dt pydantic \<Rightarrow> json \<Rightarrow> int option" where
  "as_int lib v =
     (case v of
        JNum m e \<Rightarrow> if e = 0 then Some m else lax_int lib v
      | JBool b \<Rightarrow> lax_int lib v
      | JString s \<Rightarrow> lax_int lib v
      | _ \<Rightarrow> None)"

definition as_str :: "json \<Rightarrow> string option" where
  "as_str v = (case v of JString s \<Rightarrow> Some s | _ \<Rightarrow> None)"

definition as_dict :: "json \<Rightarrow> (string \<times> json) list option" where
  "as_dict v = (case v of JObject m \<Rightarrow> Some m | _ \<Rightarrow> None)"

definition declared_fields :: "string list" where
  "declared_fields = [''timestamp'', ''version'', ''type'', ''tailnet'', ''message'', ''data'']"

text \<open>One element of the array against \<open>TailscaleEvent\<close>; \<open>None\<close> is a validation error.\<close>

definition validate_event :: "'dt pydantic \<Rightarrow> json \<Rightarrow> 'dt tailscale_event option" where
  "validate_event lib v =
     (case v of
        JObject members \<Rightarrow>
          (case (Option.bind (map_of members ''timestamp'') (as_datetime lib),
                 Option.bind (map_of members ''version'') (as_int lib),
                 Option.bind (map_of members ''type'') as_str,
                 Option.bind (map_of members ''tailnet'') as_str,
                 Option.bind (map_of members ''message'') as_str,
                 (case map_of members ''data'' of
                    None \<Rightarrow> Some []
                  | Some d \<Rightarrow> as_dict d)) of
             (Some ts, Some ver, Some ty, Some tn, Some msg, Some d) \<Rightarrow>
               Some \<lparr> timestamp = ts, version = ver, type = ty, tailnet = tn, message = msg,
                      data = d,
                      extra = filter (\<lambda>(k, _). k \<notin> set declared_fields) members \<rparr>
           | _ \<Rightarrow> None)
      | _ \<Rightarrow> None)"

fun validate_items :: "'dt pydantic \<Rightarrow> json list \<Rightarrow> 'dt tailscale_event list option" where
  "validate_items lib [] = Some []"
| "validate_items lib (v # vs) =
     (case validate_event lib v of
        None \<Rightarrow> None
      | Some e \<Rightarrow> map_option ((#) e) (validate_items lib vs))"

definition validate_json :: "'dt pydantic \<Rightarrow> bytes \<Rightarrow> 'dt tailscale_event list option" where
  "validate_json lib body =
     (case parse_json lib body of
        None \<Rightarrow> None
      | Some (JArray items) \<Rightarrow> validate_items lib items
      | Some _ \<Rightarrow> None)"

section \<open>The endpoint (app.py, exception_handlers.py)\<close>

record config =
  tailscale_webhook_secret :: string
  webhook_timestamp_tolerance_seconds :: int
  telegram_bot_token :: string
  telegram_chat_id :: string

text \<open>
  The notification channel is an object with a \<open>send\<close> method: a function from the payload
  and the channel's state to what the call did and the new state. A call either returns
  a truth value or raises an \<open>Exception\<close>.
\<close>

datatype send_result = Returned bool | Raised

type_synonym ('dt, 'ch) send_fn = "'dt notification_payload \<Rightarrow> 'ch \<Rightarrow> send_result \<times> 'ch"

text \<open>
  The loop of \<open>process_webhook_events\<close>, with the local \<open>all_success\<close> and the channel
  threaded through. The last component lists the calls made to \<open>send\<close>, in order, each
  with its outcome; it is a record of what happened and no data of the program.
\<close>

fun send_events ::
  "('dt, 'ch) send_fn \<Rightarrow> 'dt tailscale_event list \<Rightarrow> bool \<Rightarrow> 'ch \<Rightarrow>
   ('dt notification_payload \<times> send_result) list \<Rightarrow>
   bool \<times> 'ch \<times> ('dt notification_payload \<times> send_result) list"
where
  "send_events send [] all_success ch calls = (all_success, ch, calls)"
| "send_events send (event # events) all_success ch calls =
     (let payload = from_tailscale_event event;
          (result, ch') = send payload ch;
          calls' = calls @ [(payload, result)]
      in case result of
           Returned success \<Rightarrow>
             if \<not> success then send_events send events False ch' calls'
             else send_events send events all_success ch' calls'
         | Raised \<Rightarrow> send_events send events False ch' calls')"

text \<open>\<open>process_webhook_events\<close>; \<open>telegram_channel\<close> is \<open>None\<close> or a channel.\<close>

definition process_webhook_events ::
  "('dt, 'ch) send_fn \<Rightarrow> 'dt tailscale_event list \<Rightarrow> 'ch option \<Rightarrow>
   bool \<times> 'ch option \<times> ('dt notification_payload \<times> send_result) list"
where
  "process_webhook_events send events telegram_channel =
     (case telegram_channel of
        None \<Rightarrow> (True, None, [])
      | Some ch \<Rightarrow>
          (let (all_success, ch', calls) = send_events send events True ch []
           in (all_success, Some ch', calls)))"

text \<open>
  What leaves the endpoint function other than a response: the module's own
  \<open>WebhookVerificationError\<close> with its message, or an error of a builtin that nothing
  caught.
\<close>

datatype app_error = WebhookVerificationError string | Uncaught py_error

record response =
  status_code :: nat
  content :: "(string \<times> string) list"
  headers :: "(string \<times> string) list"

text \<open>
  The two \<open>JSONResponse\<close> values the endpoint builds; \<open>request_id\<close> is the text of the
  identifier that \<open>uuid.uuid4()\<close> drew for the request.
\<close>

definition failed_response :: "string \<Rightarrow> response" where
  "failed_response request_id =
     \<lparr> status_code = 500,
       content =
         [(''status'', ''failed''),
          (''message'', ''Failed to process one or more events''),
          (''request_id'', request_id)],
       headers = [(''X-Request-ID'', request_id)] \<rparr>"

definition accepted_response :: "string \<Rightarrow> nat \<Rightarrow> response" where
  "accepted_response request_id len_events =
     \<lparr> status_code = 202,
       content =
         [(''status'', ''accepted''),
          (''message'',
           ''Received '' @ py_str (int len_events)
             @ '' webhook event(s), processed successfully''),
          (''request_id'', request_id)],
       headers = [(''X-Request-ID'', request_id)] \<rparr>"

text \<open>
  \<open>webhook_tailscale\<close>. The message of the third \<open>WebhookVerificationError\<close> ends, in the
  source, with the library's rendering of the validation error, which is left out.
\<close>

definition webhook_tailscale ::
  "'dt pydantic \<Rightarrow> (bytes \<Rightarrow> bytes \<Rightarrow> bytes) \<Rightarrow> int \<Rightarrow> config \<Rightarrow> ('dt, 'ch) send_fn \<Rightarrow>
   'ch option \<Rightarrow> string \<Rightarrow> string \<Rightarrow> bytes \<Rightarrow>
   (app_error + response) \<times> 'ch option \<times> ('dt notification_payload \<times> send_result) list"
where
  "webhook_tailscale lib hmac_sha256 current_time cfg send telegram_channel request_id
       tailscale_webhook_signature body =
     (let secret = tailscale_webhook_secret cfg
      in if secret = [] then
           (Inl (WebhookVerificationError ''Webhook secret not configured''),
            telegram_channel, [])
         else
           (case verify_signature hmac_sha256 current_time tailscale_webhook_signature body
                   (encode_utf8 secret) (webhook_timestamp_tolerance_seconds cfg) of
              Inl e \<Rightarrow> (Inl (Uncaught e), telegram_channel, [])
            | Inr verified \<Rightarrow>
                if \<not> verified then
                  (Inl (WebhookVerificationError ''Signature verification failed''),
                   telegram_channel, [])
                else
                  (case validate_json lib body of
                     None \<Rightarrow>
                       (Inl (WebhookVerificationError ''Invalid event data: ''),
                        telegram_channel, [])
                   | Some events \<Rightarrow>
                       (let (success, channel', calls) =
                              process_webhook_events send events telegram_channel
                        in if \<not> success then (Inr (failed_response request_id), channel', calls)
                           else
                             (Inr (accepted_response request_id (length events)),
                              channel', calls)))))"

text \<open>The two handlers of exception_handlers.py.\<close>

definition webhook_verification_error_handler :: response where
  "webhook_verification_error_handler =
     \<lparr> status_code = 401,
       content = [(''detail'', ''Invalid webhook signature or timestamp'')],
       headers = [] \<rparr>"

definition generic_exception_handler :: response where
  "generic_exception_handler =
     \<lparr> status_code = 500,
       content = [(''detail'', ''Internal server error'')],
       headers = [] \<rparr>"

text \<open>
  The response a client receives: the endpoint's own, or the one of the handler that
  \<open>setup_exception_handlers\<close> registered for the error raised.
\<close>

definition handle_error :: "app_error \<Rightarrow> response" where
  "handle_error e =
     (case e of
        WebhookVerificationError _ \<Rightarrow> webhook_verification_error_handler
      | Uncaught _ \<Rightarrow> generic_exception_handler)"

definition post_events ::
  "'dt pydantic \<Rightarrow> (bytes \<Rightarrow> bytes \<Rightarrow> bytes) \<Rightarrow> int \<Rightarrow> config \<Rightarrow> ('dt, 'ch) send_fn \<Rightarrow>
   'ch option \<Rightarrow> string \<Rightarrow> string \<Rightarrow> bytes \<Rightarrow>
   response \<times> 'ch option \<times> ('dt notification_payload \<times> send_result) list"
where
  "post_events lib hmac_sha256 current_time cfg send telegram_channel request_id
       tailscale_webhook_signature body =
     (case webhook_tailscale lib hmac_sha256 current_time cfg send telegram_channel
             request_id tailscale_webhook_signature body of
        (Inl e, channel', calls) \<Rightarrow> (handle_error e, channel', calls)
      | (Inr r, channel', calls) \<Rightarrow> (r, channel', calls))"

section \<open>The decoder as the specification words it\<close>















section \<open>Concrete instances\<close>

text \<open>
  Stand-ins for what the model takes as parameters, for running it on concrete requests:
  a keyed digest; a validation library whose parser knows four bodies, which reads a
  \<open>datetime\<close> from any non-empty text (kept as that text) or from an integer literal, and
  an \<open>int\<close> from a string as \<open>int\<close> does, from a boolean, and from a number written with
  fraction or exponent whose value is whole; and a channel that counts the calls it has
  seen, returns \<open>False\<close> on events of type \<open>bad\<close> and raises on those of type \<open>boom\<close>.
\<close>

definition sample_hmac :: "bytes \<Rightarrow> bytes \<Rightarrow> bytes" where
  "sample_hmac key msg = key @ msg"

definition sample_parse_datetime :: "string \<Rightarrow> string option" where
  "sample_parse_datetime s = (if s = [] then None else Some s)"

definition sample_lax_datetime :: "json \<Rightarrow> string option" where
  "sample_lax_datetime v =
     (case v of JNum m e \<Rightarrow> if e = 0 then Some (py_str m) else None | _ \<Rightarrow> None)"

definition sample_lax_int :: "json \<Rightarrow> int option" where
  "sample_lax_int v =
     (case v of
        JString s \<Rightarrow> (case py_int s of Inl err \<Rightarrow> None | Inr n \<Rightarrow> Some n)
      | JBool b \<Rightarrow> Some (if b then 1 else 0)
      | JNum m e \<Rightarrow>
          if 0 \<le> e then Some (m * 10 ^ nat e)
          else if m mod 10 ^ nat (- e) = 0 then Some (m div 10 ^ nat (- e))
          else None
      | _ \<Rightarrow> None)"

definition sample_object :: "string \<Rightarrow> json" where
  "sample_object ty =
     JObject
       [(''timestamp'', JString ''2024-01-15T10:30:00Z''), (''version'', JNum 1 0),
        (''type'', JString ty), (''tailnet'', JString ''example.com''),
        (''message'', JString ''Node created'')]"

definition body_one :: bytes where
  \<open>body_one = encode_utf8 ''[{"timestamp":"2024-01-15T10:30:00Z","version":1,"type":"ok","tailnet":"example.com","message":"Node created"}]''\<close>

definition body_three :: bytes where
  \<open>body_three = encode_utf8 ''[{"timestamp":"2024-01-15T10:30:00Z","version":1,"type":"ok","tailnet":"example.com","message":"Node created"},{"timestamp":"2024-01-15T10:30:00Z","version":1,"type":"bad","tailnet":"example.com","message":"Node created"},{"timestamp":"2024-01-15T10:30:00Z","version":1,"type":"ok","tailnet":"example.com","message":"Node created"}]''\<close>

text \<open>\<open>body_one\<close> with the version written as the JSON string \<open>"1"\<close>.\<close>

definition body_version_text :: bytes where
  \<open>body_version_text = encode_utf8 ''[{"timestamp":"2024-01-15T10:30:00Z","version":"1","type":"ok","tailnet":"example.com","message":"Node created"}]''\<close>

definition sample_parse_json :: "bytes \<Rightarrow> json option" where
  "sample_parse_json body =
     (if body = body_one then Some (JArray [sample_object ''ok''])
      else if body = body_three then
        Some (JArray [sample_object ''ok'', sample_object ''bad'', sample_object ''ok''])
      else if body = body_version_text then
        Some (JArray
          [JObject
             [(''timestamp'', JString ''2024-01-15T10:30:00Z''), (''version'', JString ''1''),
              (''type'', JString ''ok''), (''tailnet'', JString ''example.com''),
              (''message'', JString ''Node created'')]])
      else if body = encode_utf8 ''[]'' then Some (JArray [])
      else None)"

definition sample_pydantic :: "string pydantic" where
  "sample_pydantic =
     \<lparr> parse_json = sample_parse_json, parse_datetime = sample_parse_datetime,
       lax_datetime = sample_lax_datetime, lax_int = sample_lax_int \<rparr>"

definition sample_send :: "(string, nat) send_fn" where
  "sample_send payload n =
     (if event_type payload = ''boom'' then (Raised, Suc n)
      else (Returned (event_type payload \<noteq> ''bad''), Suc n))"

definition sample_event :: "string \<Rightarrow> string tailscale_event" where
  "sample_event ty =
     \<lparr> timestamp = ''2024-01-15T10:30:00Z'', version = 1, type = ty,
       tailnet = ''example.com'', message = ''Node created'', data = [], extra = [] \<rparr>"

definition sample_config :: "string \<Rightarrow> config" where
  "sample_config secret =
     \<lparr> tailscale_webhook_secret = secret, webhook_timestamp_tolerance_seconds = 300,
       telegram_bot_token = ''token'', telegram_chat_id = ''chat'' \<rparr>"

section \<open>Properties of the builtins and of the header parser\<close>

lemma py_split_not_Nil: "py_split sep s \<noteq> []"
  by (induction s) (auto split: list.splits)

lemma py_split_no_sep: "sep \<notin> set s \<Longrightarrow> py_split sep s = [s]"
  by (induction s) auto

lemma py_split_append: "sep \<notin> set a \<Longrightarrow> py_split sep (a @ sep # b) = a # py_split sep b"
  by (induction a) auto

lemma lt_10_cases: "n < 10 \<Longrightarrow> n \<in> {0, 1, 2, 3, 4, 5, 6, 7, 8, 9::nat}"
  by auto

lemma digit_char_props:
  assumes "n < 10"
  shows "is_digit (digit_char n)" and "digit_val (digit_char n) = n"
  using lt_10_cases [OF assms]
  by (auto simp: digit_char_def is_digit_def digit_val_def)

lemma is_digit_props:
  assumes "is_digit c"
  shows "\<not> is_space c" and "c \<noteq> CHR '',''" and "c \<noteq> CHR ''-''" and "c \<noteq> CHR ''+''" and "c \<noteq> CHR ''_''"
  using assms by (auto simp: is_digit_def is_space_def)

lemma nat_digits_digits: "c \<in> set (nat_digits n) \<Longrightarrow> is_digit c"
proof (induction n arbitrary: c rule: nat_digits.induct)
  case (1 n)
  show ?case
  proof (cases "n < 10")
    case True
    with "1.prems" show ?thesis
      by (simp add: nat_digits.simps [of n] digit_char_props)
  next
    case False
    with "1.prems" "1.IH" show ?thesis
      by (auto simp: nat_digits.simps [of n] digit_char_props)
  qed
qed

lemma nat_digits_not_Nil: "nat_digits n \<noteq> []"
  by (subst nat_digits.simps) simp

lemma digits_value_snoc:
  "\<forall>c \<in> set xs. is_digit c \<Longrightarrow> is_digit d \<Longrightarrow>
   digits_value acc (xs @ [d]) = map_option (\<lambda>v. v * 10 + digit_val d) (digits_value acc xs)"
  by (induction xs arbitrary: acc) auto

lemma digits_value_nat_digits: "digits_value 0 (nat_digits n) = Some n"
proof (induction n rule: nat_digits.induct)
  case (1 n)
  show ?case
  proof (cases "n < 10")
    case True
    then show ?thesis
      by (simp add: nat_digits.simps [of n] digit_char_props)
  next
    case False
    then have "digits_value 0 (nat_digits (n div 10)) = Some (n div 10)"
      using "1.IH" by simp
    with False show ?thesis
      by (simp add: nat_digits.simps [of n] digits_value_snoc nat_digits_digits digit_char_props)
  qed
qed

lemma parse_nat_nat_digits: "parse_nat (nat_digits n) = Some n"
proof -
  obtain c cs where eq: "nat_digits n = c # cs"
    using nat_digits_not_Nil [of n] by (cases "nat_digits n") auto
  then have "is_digit c"
    using nat_digits_digits [of c n] by simp
  with eq show ?thesis
    using digits_value_nat_digits [of n] by (simp add: parse_nat_def)
qed

lemma py_strip_id:
  assumes "s \<noteq> []" and "\<not> is_space (hd s)" and "\<not> is_space (last s)"
  shows "py_strip s = s"
proof -
  from assms obtain c cs where s: "s = c # cs" by (cases s) auto
  with assms have 1: "dropWhile is_space s = s" by simp
  from assms have "rev s \<noteq> []" "\<not> is_space (hd (rev s))" by (simp_all add: hd_rev)
  then have "dropWhile is_space (rev s) = rev s" by (cases "rev s") auto
  with 1 show ?thesis by (simp add: py_strip_def)
qed

lemma py_str_chars: "c \<in> set (py_str i) \<Longrightarrow> is_digit c \<or> c = CHR ''-''"
  by (auto simp: py_str_def dest: nat_digits_digits split: if_splits)

lemma py_str_not_Nil: "py_str i \<noteq> []"
  by (simp add: py_str_def nat_digits_not_Nil)

lemma py_str_no_space: "c \<in> set (py_str i) \<Longrightarrow> \<not> is_space c"
proof -
  assume "c \<in> set (py_str i)"
  then have "is_digit c \<or> c = CHR ''-''" by (rule py_str_chars)
  then show ?thesis
  proof
    assume "is_digit c" then show ?thesis by (rule is_digit_props(1))
  next
    assume "c = CHR ''-''" then show ?thesis by (simp add: is_space_def)
  qed
qed

lemma py_strip_py_str: "py_strip (py_str i) = py_str i"
proof (rule py_strip_id)
  show "py_str i \<noteq> []" by (rule py_str_not_Nil)
  have "hd (py_str i) \<in> set (py_str i)" "last (py_str i) \<in> set (py_str i)"
    using py_str_not_Nil by simp_all
  then show "\<not> is_space (hd (py_str i))" "\<not> is_space (last (py_str i))"
    by (simp_all add: py_str_no_space)
qed

lemma py_int_py_str: "py_int (py_str i) = Inr i"
proof (cases "i < 0")
  case True
  then show ?thesis
    using py_strip_py_str [of i]
    by (simp add: py_int_def py_str_def parse_nat_nat_digits)
next
  case False
  obtain c cs where eq: "nat_digits (nat i) = c # cs"
    using nat_digits_not_Nil [of "nat i"] by (cases "nat_digits (nat i)") auto
  then have "is_digit c"
    using nat_digits_digits [of c "nat i"] by simp
  then have "c \<noteq> CHR ''-''" "c \<noteq> CHR ''+''"
    by (simp_all add: is_digit_props)
  with False eq show ?thesis
    using py_strip_py_str [of i] parse_nat_nat_digits [of "nat i"]
    by (simp add: py_int_def py_str_def)
qed

lemma hex_char_mem: "n < 16 \<Longrightarrow> hex_char n \<in> set ''0123456789abcdef''"
  unfolding hex_char_def by (rule nth_mem) simp

lemma hex_char_props:
  assumes "n < 16"
  shows "hex_char n \<noteq> CHR '',''" and "(of_char (hex_char n) :: nat) < 128"
  using hex_char_mem [OF assms] by auto

lemma hex_byte_props:
  assumes "c \<in> set (hex_byte b)"
  shows "c \<noteq> CHR '',''" and "(of_char c :: nat) < 128"
proof -
  have "unat b < 256" using unsigned_less [of b] by simp
  then have lt: "unat b div 16 < 16" "unat b mod 16 < 16" by simp_all
  from assms have "c = hex_char (unat b div 16) \<or> c = hex_char (unat b mod 16)"
    by (simp add: hex_byte_def)
  then show "c \<noteq> CHR '',''" and "(of_char c :: nat) < 128"
    using hex_char_props [OF lt(1)] hex_char_props [OF lt(2)] by auto
qed

lemma hexdigest_no_comma: "CHR '','' \<notin> set (hexdigest d)"
  using hex_byte_props(1) by (auto simp: hexdigest_def)

lemma hexdigest_ascii: "is_ascii (hexdigest d)"
  using hex_byte_props(2) by (auto simp: hexdigest_def is_ascii_def)

lemma py_str_no_comma: "CHR '','' \<notin> set (py_str i)"
  using py_str_chars [of "CHR '',''" i] by (auto simp: is_digit_def)

lemma py_split_format_header:
  assumes "CHR '','' \<notin> set sg"
  shows "py_split CHR '','' (format_header ts sg) = [''t='' @ py_str ts, ''v1='' @ sg]"
proof -
  have "CHR '','' \<notin> set (''t='' @ py_str ts)"
    using py_str_no_comma by simp
  then have "py_split CHR '','' ((''t='' @ py_str ts) @ CHR '','' # (''v1='' @ sg))
      = (''t='' @ py_str ts) # py_split CHR '','' (''v1='' @ sg)"
    by (rule py_split_append)
  moreover have "py_split CHR '','' (''v1='' @ sg) = [''v1='' @ sg]"
    using assms by (intro py_split_no_sep) simp
  ultimately show ?thesis
    by (simp add: format_header_def)
qed

lemma parse_signature_header_format_header:
  assumes "CHR '','' \<notin> set sg"
  shows "parse_signature_header (format_header ts sg) = Inr (Some sg, Some ts)"
  by (simp add: parse_signature_header_def py_split_format_header [OF assms]
      startswith_def py_int_py_str)

lemma verify_signature_format_header:
  "verify_signature H now (format_header ts (compute_signature H ts body secret)) body secret tol
     = Inr (validate_timestamp now ts tol)"
proof -
  let ?sg = "compute_signature H ts body secret"
  have "CHR '','' \<notin> set ?sg" "is_ascii ?sg"
    by (simp_all add: compute_signature_def Let_def hexdigest_no_comma hexdigest_ascii)
  then show ?thesis
    by (simp add: verify_signature_def parse_signature_header_format_header compare_digest_def)
qed

lemma py_int_error: "py_int s = Inl e \<Longrightarrow> e = ValueError"
  by (auto simp: py_int_def Let_def split: prod.splits option.splits)

lemma parse_parts_error: "parse_parts ps ts sg = Inl e \<Longrightarrow> e = ValueError"
  by (induction ps arbitrary: ts sg) (auto split: if_splits sum.splits dest: py_int_error)

lemma parse_parts_no_t:
  "\<forall>p \<in> set ps. \<not> startswith p ''t='' \<Longrightarrow> \<exists>sg'. parse_parts ps ts sg = Inr (ts, sg')"
  by (induction ps arbitrary: sg) auto

lemma parse_parts_no_v1:
  "\<forall>p \<in> set ps. \<not> startswith p ''v1='' \<Longrightarrow>
   parse_parts ps ts sg = Inl ValueError \<or> (\<exists>ts'. parse_parts ps ts sg = Inr (ts', sg))"
proof (induction ps arbitrary: ts)
  case Nil
  then show ?case by simp
next
  case (Cons p ps)
  then have IH: "\<And>ts. parse_parts ps ts sg = Inl ValueError
      \<or> (\<exists>ts'. parse_parts ps ts sg = Inr (ts', sg))"
    by simp
  from Cons.prems have nv: "\<not> startswith p ''v1=''" by simp
  show ?case
  proof (cases "startswith p ''t=''")
    case False
    with nv IH [of ts] show ?thesis by simp
  next
    case True
    show ?thesis
    proof (cases "py_int (drop 2 p)")
      case (Inl e)
      with True py_int_error [OF Inl] show ?thesis by simp
    next
      case (Inr n)
      with True IH [of "Some n"] show ?thesis by simp
    qed
  qed
qed

lemma parse_parts_bad_t:
  "p \<in> set ps \<Longrightarrow> startswith p ''t='' \<Longrightarrow> py_int (drop 2 p) = Inl ValueError \<Longrightarrow>
   parse_parts ps ts sg = Inl ValueError"
proof (induction ps arbitrary: ts sg)
  case Nil
  then show ?case by simp
next
  case (Cons q qs)
  show ?case
  proof (cases "q = p")
    case True
    with Cons.prems show ?thesis by simp
  next
    case False
    with Cons.prems have "p \<in> set qs" by simp
    then have IH: "\<And>ts sg. parse_parts qs ts sg = Inl ValueError"
      using Cons.IH Cons.prems by simp
    show ?thesis
    proof (cases "startswith q ''t=''")
      case False
      then show ?thesis by (simp add: IH)
    next
      case True
      show ?thesis
      proof (cases "py_int (drop 2 q)")
        case (Inl e)
        with True py_int_error [OF Inl] show ?thesis by simp
      next
        case (Inr n)
        with True show ?thesis by (simp add: IH)
      qed
    qed
  qed
qed

lemma parse_signature_header_bad_t:
  assumes "p \<in> set (py_split CHR '','' h)" and "startswith p ''t=''"
    and "py_int (drop 2 p) = Inl ValueError"
  shows "parse_signature_header h = Inr (None, None)"
  by (simp add: parse_signature_header_def parse_parts_bad_t [OF assms])

lemma parse_signature_header_no_t:
  assumes "\<forall>p \<in> set (py_split CHR '','' h). \<not> startswith p ''t=''"
  shows "parse_signature_header h = Inr (None, None)"
proof -
  obtain sg' where "parse_parts (py_split CHR '','' h) None None = Inr (None, sg')"
    using parse_parts_no_t [OF assms] by blast
  then show ?thesis by (simp add: parse_signature_header_def)
qed

lemma parse_signature_header_no_v1:
  assumes "\<forall>p \<in> set (py_split CHR '','' h). \<not> startswith p ''v1=''"
  shows "parse_signature_header h = Inr (None, None)"
  using parse_parts_no_v1 [OF assms, of None None]
  by (auto simp: parse_signature_header_def)

lemma verify_signature_unparsed:
  "parse_signature_header h = Inr (None, None) \<Longrightarrow> verify_signature H now h body secret tol = Inr False"
  by (simp add: verify_signature_def)

section \<open>Properties of the decoder and of the dispatch loop\<close>












lemma validate_items_length: "validate_items lib vs = Some es \<Longrightarrow> length es = length vs"
  by (induction vs arbitrary: es) (auto split: option.splits)





lemma webhook_tailscale_verified:
  assumes "tailscale_webhook_secret cfg \<noteq> []"
    and "verify_signature H now sg body (encode_utf8 (tailscale_webhook_secret cfg))
           (webhook_timestamp_tolerance_seconds cfg) = Inr True"
    and "validate_json lib body = Some evs"
    and "process_webhook_events send evs tc = (ok, tc', calls)"
  shows "webhook_tailscale lib H now cfg send tc rid sg body
     = (Inr (if ok then accepted_response rid (length evs) else failed_response rid), tc', calls)"
  using assms by (simp add: webhook_tailscale_def)

lemma webhook_tailscale_rejected:
  assumes "tailscale_webhook_secret cfg \<noteq> []"
    and "verify_signature H now sg body (encode_utf8 (tailscale_webhook_secret cfg))
           (webhook_timestamp_tolerance_seconds cfg) = Inr False"
  shows "webhook_tailscale lib H now cfg send tc rid sg body
     = (Inl (WebhookVerificationError ''Signature verification failed''), tc, [])"
  using assms by (simp add: webhook_tailscale_def)

lemma webhook_tailscale_no_secret:
  assumes "tailscale_webhook_secret cfg = []"
  shows "webhook_tailscale lib H now cfg send tc rid sg body
     = (Inl (WebhookVerificationError ''Webhook secret not configured''), tc, [])"
  using assms by (simp add: webhook_tailscale_def)

lemma webhook_tailscale_response:
  assumes "webhook_tailscale lib H now cfg send tc rid sg body = (Inr r, tc', calls)"
  shows "\<exists>n. r = accepted_response rid n \<or> r = failed_response rid"
  using assms
  by (auto simp: webhook_tailscale_def Let_def split: if_splits sum.splits option.splits
      prod.splits)

lemma response_request_id:
  assumes "r = accepted_response rid n \<or> r = failed_response rid"
  shows "map_of (content r) ''request_id'' = Some rid"
    and "map_of (headers r) ''X-Request-ID'' = Some rid"
  using assms by (auto simp: accepted_response_def failed_response_def)

lemma handle_error_content: "map_of (content (handle_error e)) ''request_id'' = None"
  by (cases e) (simp_all add: handle_error_def webhook_verification_error_handler_def
      generic_exception_handler_def)

lemma handle_error_headers: "headers (handle_error e) = []"
  by (cases e) (simp_all add: handle_error_def webhook_verification_error_handler_def
      generic_exception_handler_def)

lemma sample_validate_event:
  "validate_event sample_pydantic (sample_object ty) = Some (sample_event ty)"
  by (simp add: validate_event_def sample_object_def sample_pydantic_def as_datetime_def
      as_int_def sample_parse_datetime_def as_str_def declared_fields_def sample_event_def)

lemma sample_bodies_differ:
  "body_three \<noteq> body_one" "body_version_text \<noteq> body_one" "body_version_text \<noteq> body_three"
  by (simp_all add: body_three_def body_one_def body_version_text_def encode_utf8_def
      utf8_char_def)

lemma sample_validate_json:
  "validate_json sample_pydantic body_one = Some [sample_event ''ok'']"
  "validate_json sample_pydantic body_three
     = Some [sample_event ''ok'', sample_event ''bad'', sample_event ''ok'']"
  by (simp_all add: validate_json_def sample_pydantic_def sample_parse_json_def
      sample_bodies_differ sample_validate_event [unfolded sample_pydantic_def])



lemma sample_verified:
  "verify_signature sample_hmac 1000
     (format_header 1000 (compute_signature sample_hmac 1000 body (encode_utf8 ''s'')))
     body (encode_utf8 (tailscale_webhook_secret (sample_config ''s'')))
     (webhook_timestamp_tolerance_seconds (sample_config ''s'')) = Inr True"
  by (simp add: sample_config_def verify_signature_format_header validate_timestamp_def)

section \<open>Signature verification: the claims\<close>

text \<open>
  C1, as the specification states it: a header built from the signature of the same
  timestamp, body and secret verifies whenever the distance between the clock and the
  timestamp is within the tolerance. This fails for a timestamp one second ahead of the
  clock, which \<open>validate_timestamp\<close> rejects whatever the tolerance.
\<close>

theorem signature_correctness_counterexample:
  "\<bar>100 - 101\<bar> \<le> (5::int) \<and>
   verify_signature sample_hmac 100
     (format_header 101 (compute_signature sample_hmac 101 [1, 2] [3])) [1, 2] [3] 5
   = Inr False"
  by (simp add: verify_signature_format_header validate_timestamp_def)

text \<open>
  C1, amended: the header \<open>t=<timestamp>,v1=<s>\<close>, with \<open>s\<close> the signature the module
  computes for the timestamp, the body and the secret, verifies against the same body and
  secret whenever the timestamp is not ahead of the clock and at most the tolerance behind
  it. This holds for every keyed digest.
\<close>

theorem signature_correctness:
  assumes "0 \<le> now - ts" and "now - ts \<le> tol"
  shows "verify_signature H now (format_header ts (compute_signature H ts body secret))
           body secret tol = Inr True"
  using assms by (simp add: verify_signature_format_header validate_timestamp_def)

theorem signature_correctness_witness:
  "(0::int) \<le> 100 - 95 \<and> (100::int) - 95 \<le> 5 \<and>
   verify_signature sample_hmac 100
     (format_header 95 (compute_signature sample_hmac 95 [1, 2] [3])) [1, 2] [3] 5
   = Inr True"
  using signature_correctness [of 100 95 5 sample_hmac "[1, 2]" "[3]"] by simp

text \<open>
  C3: for a tolerance \<open>T \<ge> 0\<close>, a validly signed header is rejected when its timestamp is
  \<open>T + 1\<close> seconds old, accepted when it is exactly \<open>T\<close> seconds old, and rejected when it is
  one second ahead of the clock.
\<close>

theorem replay_window:
  assumes "0 \<le> tol"
  shows "verify_signature H now
           (format_header (now - (tol + 1)) (compute_signature H (now - (tol + 1)) body secret))
           body secret tol = Inr False
       \<and> verify_signature H now
           (format_header (now - tol) (compute_signature H (now - tol) body secret))
           body secret tol = Inr True
       \<and> verify_signature H now
           (format_header (now + 1) (compute_signature H (now + 1) body secret))
           body secret tol = Inr False"
  using assms by (simp add: verify_signature_format_header validate_timestamp_def)

theorem replay_window_witness:
  "(0::int) \<le> 300
   \<and> verify_signature sample_hmac 1000
       (format_header (1000 - (300 + 1)) (compute_signature sample_hmac (1000 - (300 + 1)) [7] [9]))
       [7] [9] 300 = Inr False
   \<and> verify_signature sample_hmac 1000
       (format_header (1000 - 300) (compute_signature sample_hmac (1000 - 300) [7] [9]))
       [7] [9] 300 = Inr True
   \<and> verify_signature sample_hmac 1000
       (format_header (1000 + 1) (compute_signature sample_hmac (1000 + 1) [7] [9]))
       [7] [9] 300 = Inr False"
  using replay_window [of 300 sample_hmac 1000 "[7]" "[9]"] by simp

text \<open>
  C6: a header with no part starting with \<open>t=\<close>, or with no part starting with \<open>v1=\<close>, or
  with a part \<open>t=\<close> whose rest \<open>int\<close> refuses, makes verification return \<open>False\<close>; it
  returns, and raises nothing. A header with no recognisable part at all is one with no
  \<open>t=\<close> part.
\<close>

theorem malformed_header_rejected:
  assumes "(\<forall>p \<in> set (py_split CHR '','' h). \<not> startswith p ''t='')
         \<or> (\<forall>p \<in> set (py_split CHR '','' h). \<not> startswith p ''v1='')
         \<or> (\<exists>p \<in> set (py_split CHR '','' h).
               startswith p ''t='' \<and> py_int (drop 2 p) = Inl ValueError)"
  shows "verify_signature H now h body secret tol = Inr False"
proof -
  have "parse_signature_header h = Inr (None, None)"
    using assms parse_signature_header_no_t parse_signature_header_no_v1
      parse_signature_header_bad_t by blast
  then show ?thesis by (rule verify_signature_unparsed)
qed

theorem malformed_header_rejected_witness:
  "verify_signature sample_hmac 100 ''v1=abc123def456'' [1] [2] 300 = Inr False
   \<and> verify_signature sample_hmac 100 ''t=100'' [1] [2] 300 = Inr False
   \<and> verify_signature sample_hmac 100 ''t=not-a-number,v1=abc123'' [1] [2] 300 = Inr False
   \<and> verify_signature sample_hmac 100 ''invalid-format'' [1] [2] 300 = Inr False"
proof -
  have 1: "\<forall>p \<in> set (py_split CHR '','' ''v1=abc123def456''). \<not> startswith p ''t=''"
    by (simp add: startswith_def)
  have 2: "\<forall>p \<in> set (py_split CHR '','' ''t=100''). \<not> startswith p ''v1=''"
    by (simp add: startswith_def)
  have 3: "\<exists>p \<in> set (py_split CHR '','' ''t=not-a-number,v1=abc123'').
      startswith p ''t='' \<and> py_int (drop 2 p) = Inl ValueError"
    by (simp add: startswith_def py_int_def py_strip_def is_space_def parse_nat_def is_digit_def)
  have 4: "\<forall>p \<in> set (py_split CHR '','' ''invalid-format''). \<not> startswith p ''t=''"
    by (simp add: startswith_def)
  show ?thesis
    using malformed_header_rejected [of "''v1=abc123def456''" sample_hmac 100 "[1]" "[2]" 300]
      malformed_header_rejected [of "''t=100''" sample_hmac 100 "[1]" "[2]" 300]
      malformed_header_rejected [of "''t=not-a-number,v1=abc123''" sample_hmac 100 "[1]" "[2]" 300]
      malformed_header_rejected [of "''invalid-format''" sample_hmac 100 "[1]" "[2]" 300]
      1 2 3 4
    by blast
qed

text \<open>
  C9: when some comma-separated part of the header starts with \<open>t=\<close> and \<open>int\<close> refuses
  its rest, parsing returns (None, None) and verification returns \<open>False\<close>, whatever the
  other parts of the header are.
\<close>

theorem bad_timestamp_token_aborts:
  assumes "p \<in> set (py_split CHR '','' h)" and "startswith p ''t=''"
    and "py_int (drop 2 p) = Inl ValueError"
  shows "parse_signature_header h = Inr (None, None)
       \<and> verify_signature H now h body secret tol = Inr False"
  using parse_signature_header_bad_t [OF assms] by (simp add: verify_signature_unparsed)

theorem bad_timestamp_token_aborts_witness:
  "''t=abc'' \<in> set (py_split CHR '','' ''t=100,v1=3130302e,t=abc'')
   \<and> startswith ''t=abc'' ''t=''
   \<and> py_int (drop 2 ''t=abc'') = Inl ValueError
   \<and> verify_signature sample_hmac 100 ''t=100,v1=3130302e'' [] [] 300 = Inr True
   \<and> parse_signature_header ''t=100,v1=3130302e,t=abc'' = Inr (None, None)
   \<and> verify_signature sample_hmac 100 ''t=100,v1=3130302e,t=abc'' [] [] 300 = Inr False"
proof -
  have 1: "''t=abc'' \<in> set (py_split CHR '','' ''t=100,v1=3130302e,t=abc'')"
    by simp
  have 2: "startswith ''t=abc'' ''t=''"
    by (simp add: startswith_def)
  have 3: "py_int (drop 2 ''t=abc'') = Inl ValueError"
    by (simp add: py_int_def py_strip_def is_space_def parse_nat_def is_digit_def)
  have "compute_signature sample_hmac 100 [] [] = ''3130302e''"
    by (simp add: compute_signature_def sample_hmac_def py_str_def nat_digits.simps
        digit_char_def encode_utf8_def utf8_char_def hexdigest_def hex_byte_def hex_char_def)
  moreover have "format_header 100 ''3130302e'' = ''t=100,v1=3130302e''"
    by (simp add: format_header_def py_str_def nat_digits.simps digit_char_def)
  ultimately have 4: "verify_signature sample_hmac 100 ''t=100,v1=3130302e'' [] [] 300 = Inr True"
    using verify_signature_format_header [of sample_hmac 100 100 "[]" "[]" 300]
    by (simp add: validate_timestamp_def)
  show ?thesis
    using bad_timestamp_token_aborts [OF 1 2 3, of sample_hmac 100 "[]" "[]" 300] 1 2 3 4
    by simp
qed

section \<open>Event processing and the endpoint: the claims\<close>

text \<open>
  C2: for a batch of three events where \<open>send\<close> succeeds on the first, fails on the second
  (it returns \<open>False\<close> or it raises) and succeeds on the third, the processor calls \<open>send\<close>
  exactly three times, in the order of the batch, and reports failure. Whether the second
  call returned \<open>False\<close> or raised makes no difference to the result, and the loop goes on
  after it.
\<close>

theorem batch_isolation:
  assumes "send (from_tailscale_event A) ch = (Returned True, ch1)"
    and "send (from_tailscale_event B) ch1 = (rB, ch2)"
    and "rB = Returned False \<or> rB = Raised"
    and "send (from_tailscale_event C) ch2 = (Returned True, ch3)"
  shows "process_webhook_events send [A, B, C] (Some ch)
     = (False, Some ch3,
        [(from_tailscale_event A, Returned True),
         (from_tailscale_event B, rB),
         (from_tailscale_event C, Returned True)])"
  using assms by (auto simp: process_webhook_events_def)

theorem batch_isolation_witness:
  "process_webhook_events sample_send
     [sample_event ''ok'', sample_event ''bad'', sample_event ''ok''] (Some 0)
     = (False, Some 3,
        [(from_tailscale_event (sample_event ''ok''), Returned True),
         (from_tailscale_event (sample_event ''bad''), Returned False),
         (from_tailscale_event (sample_event ''ok''), Returned True)])
   \<and> process_webhook_events sample_send
     [sample_event ''ok'', sample_event ''boom'', sample_event ''ok''] (Some 0)
     = (False, Some 3,
        [(from_tailscale_event (sample_event ''ok''), Returned True),
         (from_tailscale_event (sample_event ''boom''), Raised),
         (from_tailscale_event (sample_event ''ok''), Returned True)])"
proof -
  have ok: "\<And>n. sample_send (from_tailscale_event (sample_event ''ok'')) n
      = (Returned True, Suc n)"
    by (simp add: sample_send_def from_tailscale_event_def sample_event_def)
  have bad: "sample_send (from_tailscale_event (sample_event ''bad'')) 1 = (Returned False, 2)"
    by (simp add: sample_send_def from_tailscale_event_def sample_event_def)
  have boom: "sample_send (from_tailscale_event (sample_event ''boom'')) 1 = (Raised, 2)"
    by (simp add: sample_send_def from_tailscale_event_def sample_event_def)
  have ok0: "sample_send (from_tailscale_event (sample_event ''ok'')) 0 = (Returned True, 1)"
    and ok2: "sample_send (from_tailscale_event (sample_event ''ok'')) 2 = (Returned True, 3)"
    by (simp_all add: ok)
  show ?thesis
    using batch_isolation [OF ok0 bad _ ok2] batch_isolation [OF ok0 boom _ ok2] by simp
qed

text \<open>
  C4: with an empty webhook secret the endpoint raises its verification error at once:
  the result does not depend on the header, the body, the clock, the validation library
  or the channel, the channel is left as it was and \<open>send\<close> is not called. The client
  receives the 401 response with the fixed detail text, the same response as for a
  request whose signature does not verify.
\<close>

theorem empty_secret_rejected:
  assumes "tailscale_webhook_secret cfg = []"
    and "tailscale_webhook_secret cfg2 \<noteq> []"
    and "verify_signature H2 now2 sg2 body2 (encode_utf8 (tailscale_webhook_secret cfg2))
           (webhook_timestamp_tolerance_seconds cfg2) = Inr False"
  shows "webhook_tailscale lib H now cfg send tc rid sg body
           = (Inl (WebhookVerificationError ''Webhook secret not configured''), tc, [])
       \<and> post_events lib H now cfg send tc rid sg body
           = (\<lparr> status_code = 401,
                content = [(''detail'', ''Invalid webhook signature or timestamp'')],
                headers = [] \<rparr>, tc, [])
       \<and> fst (post_events lib2 H2 now2 cfg2 send2 tc2 rid2 sg2 body2)
           = fst (post_events lib H now cfg send tc rid sg body)"
  by (simp add: post_events_def webhook_tailscale_no_secret [OF assms(1)]
      webhook_tailscale_rejected [OF assms(2,3)] handle_error_def
      webhook_verification_error_handler_def)

theorem empty_secret_rejected_witness:
  "tailscale_webhook_secret (sample_config '''') = []
   \<and> tailscale_webhook_secret (sample_config ''s'') \<noteq> []
   \<and> verify_signature sample_hmac 1000 ''t=1000,v1=00'' []
       (encode_utf8 (tailscale_webhook_secret (sample_config ''s'')))
       (webhook_timestamp_tolerance_seconds (sample_config ''s'')) = Inr False
   \<and> webhook_tailscale sample_pydantic sample_hmac 1000 (sample_config '''') sample_send
       (Some 0) ''req-1'' ''t=1000,v1=00'' body_one
       = (Inl (WebhookVerificationError ''Webhook secret not configured''), Some 0, [])
   \<and> post_events sample_pydantic sample_hmac 1000 (sample_config '''') sample_send
       (Some 0) ''req-1'' ''t=1000,v1=00'' body_one
       = (\<lparr> status_code = 401,
            content = [(''detail'', ''Invalid webhook signature or timestamp'')],
            headers = [] \<rparr>, Some 0, [])
   \<and> fst (post_events sample_pydantic sample_hmac 1000 (sample_config ''s'') sample_send
            (Some 0) ''req-2'' ''t=1000,v1=00'' [])
       = fst (post_events sample_pydantic sample_hmac 1000 (sample_config '''') sample_send
            (Some 0) ''req-1'' ''t=1000,v1=00'' body_one)"
proof -
  have 1: "tailscale_webhook_secret (sample_config '''') = []"
    and 2: "tailscale_webhook_secret (sample_config ''s'') \<noteq> []"
    by (simp_all add: sample_config_def)
  have "py_int ''1000'' = Inr 1000"
    by (simp add: py_int_def py_strip_def is_space_def parse_nat_def is_digit_def digit_val_def)
  then have p: "parse_signature_header ''t=1000,v1=00'' = Inr (Some ''00'', Some 1000)"
    by (simp add: parse_signature_header_def startswith_def)
  have c: "compute_signature sample_hmac 1000 [] (encode_utf8 ''s'') = ''73313030302e''"
    by (simp add: compute_signature_def sample_hmac_def py_str_def nat_digits.simps
        digit_char_def encode_utf8_def utf8_char_def hexdigest_def hex_byte_def hex_char_def)
  have 3: "verify_signature sample_hmac 1000 ''t=1000,v1=00'' []
       (encode_utf8 (tailscale_webhook_secret (sample_config ''s'')))
       (webhook_timestamp_tolerance_seconds (sample_config ''s'')) = Inr False"
    by (simp add: verify_signature_def p c sample_config_def validate_timestamp_def
        compare_digest_def is_ascii_def)
  show ?thesis
    using empty_secret_rejected [OF 1 2 3, of sample_pydantic sample_hmac 1000 sample_send
        "Some 0" "''req-1''" "''t=1000,v1=00''" body_one sample_pydantic sample_send "Some 0"
        "''req-2''"]
      1 2 3
    by simp
qed






text \<open>
  C8, as the specification states it: every response to a webhook request carries the
  request identifier in its body and in an \<open>X-Request-ID\<close> header. The 401 response to a
  request that fails verification has neither.
\<close>

theorem request_id_everywhere_counterexample:
  "map_of (headers (fst (post_events sample_pydantic sample_hmac 1000 (sample_config '''')
       sample_send (Some 0) ''req-1'' ''t=1000,v1=00'' body_one))) ''X-Request-ID'' = None
   \<and> map_of (content (fst (post_events sample_pydantic sample_hmac 1000 (sample_config '''')
       sample_send (Some 0) ''req-1'' ''t=1000,v1=00'' body_one))) ''request_id'' = None"
  by (simp add: post_events_def webhook_tailscale_no_secret sample_config_def handle_error_def
      webhook_verification_error_handler_def)

text \<open>
  C8, amended: every response that the endpoint function itself returns, 202 \<open>accepted\<close>
  or 500 \<open>failed\<close>, carries the request identifier in its body and the same identifier in
  an \<open>X-Request-ID\<close> header. When the endpoint raises instead, the client receives the
  response of the exception handler, which has no request identifier in its body and no
  header of its own.
\<close>

theorem request_id_in_endpoint_responses:
  "(case fst (webhook_tailscale lib H now cfg send tc rid sg body) of
      Inr r \<Rightarrow>
        fst (post_events lib H now cfg send tc rid sg body) = r
        \<and> map_of (content r) ''request_id'' = Some rid
        \<and> map_of (headers r) ''X-Request-ID'' = Some rid
    | Inl e \<Rightarrow>
        fst (post_events lib H now cfg send tc rid sg body) = handle_error e
        \<and> map_of (content (handle_error e)) ''request_id'' = None
        \<and> headers (handle_error e) = [])"
proof (cases "webhook_tailscale lib H now cfg send tc rid sg body")
  case (fields res tc' calls)
  show ?thesis
  proof (cases res)
    case (Inl e)
    with fields show ?thesis
      using handle_error_content [of e] handle_error_headers [of e]
      by (simp add: post_events_def)
  next
    case (Inr r)
    with fields have "\<exists>n. r = accepted_response rid n \<or> r = failed_response rid"
      using webhook_tailscale_response [of lib H now cfg send tc rid sg body r tc' calls]
      by simp
    then obtain n where "r = accepted_response rid n \<or> r = failed_response rid" ..
    from response_request_id [OF this] fields Inr show ?thesis
      by (simp add: post_events_def)
  qed
qed

theorem request_id_in_endpoint_responses_witness:
  "fst (webhook_tailscale sample_pydantic sample_hmac 1000 (sample_config ''s'') sample_send
        (Some 0) ''req-1''
        (format_header 1000 (compute_signature sample_hmac 1000 body_one (encode_utf8 ''s'')))
        body_one)
     = Inr (accepted_response ''req-1'' 1)
   \<and> fst (post_events sample_pydantic sample_hmac 1000 (sample_config ''s'') sample_send
        (Some 0) ''req-1''
        (format_header 1000 (compute_signature sample_hmac 1000 body_one (encode_utf8 ''s'')))
        body_one)
     = accepted_response ''req-1'' 1
   \<and> map_of (content (accepted_response ''req-1'' 1)) ''request_id'' = Some ''req-1''
   \<and> map_of (headers (accepted_response ''req-1'' 1)) ''X-Request-ID'' = Some ''req-1''"
proof -
  have s: "tailscale_webhook_secret (sample_config ''s'') \<noteq> []"
    by (simp add: sample_config_def)
  have p: "process_webhook_events sample_send [sample_event ''ok''] (Some 0)
      = (True, Some 1, [(from_tailscale_event (sample_event ''ok''), Returned True)])"
    by (simp add: process_webhook_events_def sample_send_def from_tailscale_event_def
        sample_event_def)
  have w: "fst (webhook_tailscale sample_pydantic sample_hmac 1000 (sample_config ''s'')
        sample_send (Some 0) ''req-1''
        (format_header 1000 (compute_signature sample_hmac 1000 body_one (encode_utf8 ''s'')))
        body_one)
     = Inr (accepted_response ''req-1'' 1)"
    using webhook_tailscale_verified [OF s sample_verified sample_validate_json(1) p,
        of "''req-1''"]
    by simp
  show ?thesis
    using request_id_in_endpoint_responses [of sample_pydantic sample_hmac 1000
        "sample_config ''s''" sample_send "Some 0" "''req-1''"
        "format_header 1000 (compute_signature sample_hmac 1000 body_one (encode_utf8 ''s''))"
        body_one]
      w
    by simp
qed

text \<open>
  C10: an event object with the five required fields, each of a value its type accepts,
  and no member \<open>data\<close> decodes; the event's \<open>data\<close> is the empty mapping, and so is the
  \<open>raw_data\<close> of the notification payload made from it.
\<close>

theorem missing_data_defaults_to_empty:
  assumes "map_of m ''timestamp'' = Some jt" and "as_datetime lib jt = Some ts"
    and "map_of m ''version'' = Some jv" and "as_int lib jv = Some ver"
    and "map_of m ''type'' = Some (JString ty)"
    and "map_of m ''tailnet'' = Some (JString tn)"
    and "map_of m ''message'' = Some (JString msg)"
    and "map_of m ''data'' = None"
    and "parse_json lib body = Some (JArray [JObject m])"
  shows "\<exists>e. validate_json lib body = Some [e]
           \<and> validate_event lib (JObject m) = Some e
           \<and> data e = []
           \<and> raw_data (from_tailscale_event e) = []"
  using assms
  by (simp add: validate_json_def validate_event_def as_str_def from_tailscale_event_def)

theorem missing_data_defaults_to_empty_witness:
  "parse_json sample_pydantic body_one = Some (JArray [sample_object ''ok''])
   \<and> map_of [(''timestamp'', JString ''2024-01-15T10:30:00Z''), (''version'', JNum 1 0),
             (''type'', JString ''ok''), (''tailnet'', JString ''example.com''),
             (''message'', JString ''Node created'')] ''data'' = None
   \<and> (\<exists>e. validate_json sample_pydantic body_one = Some [e]
          \<and> validate_event sample_pydantic (sample_object ''ok'') = Some e
          \<and> data e = []
          \<and> raw_data (from_tailscale_event e) = [])"
proof -
  let ?m = "[(''timestamp'', JString ''2024-01-15T10:30:00Z''), (''version'', JNum 1 0),
             (''type'', JString ''ok''), (''tailnet'', JString ''example.com''),
             (''message'', JString ''Node created'')]"
  have p: "parse_json sample_pydantic body_one = Some (JArray [JObject ?m])"
    by (simp add: sample_pydantic_def sample_parse_json_def sample_object_def)
  have 1: "map_of ?m ''timestamp'' = Some (JString ''2024-01-15T10:30:00Z'')"
    and 2: "as_datetime sample_pydantic (JString ''2024-01-15T10:30:00Z'')
        = Some ''2024-01-15T10:30:00Z''"
    and 3: "map_of ?m ''version'' = Some (JNum 1 0)"
    and 4: "as_int sample_pydantic (JNum 1 0) = Some 1"
    and 5: "map_of ?m ''type'' = Some (JString ''ok'')"
    and 6: "map_of ?m ''tailnet'' = Some (JString ''example.com'')"
    and 7: "map_of ?m ''message'' = Some (JString ''Node created'')"
    and 8: "map_of ?m ''data'' = None"
    by (simp_all add: as_datetime_def as_int_def sample_pydantic_def sample_parse_datetime_def)
  show ?thesis
    using missing_data_defaults_to_empty [OF 1 2 3 4 5 6 7 8 p] p 8
    by (simp add: sample_object_def)
qed

end
